theory Spec2Isabelle
  imports Main "HOL-Library.Multiset"
begin

section \<open>The upload script NeonSqlUpload.py\<close>

text \<open>
  The script is one straight line of statements with no function of its own and no
  \<open>try\<close>: it loads an env file, looks the connection string up, creates an engine,
  reads a CSV file into a data frame, writes the frame to the table \<open>loan_data\<close>,
  counts the table's rows over a connection of its own, compares the two counts and
  prints one line. Everything it does beyond the comparison it does through calls of
  dotenv, pandas and SQLAlchemy. Those calls are modelled by what the libraries document
  for the arguments the script passes; what lies outside the process (the env file, the
  CSV file, the store and its failures) is a value of the record \<open>world\<close>.
\<close>

subsection \<open>Data\<close>

text \<open>
  A cell of a data frame or of a table. The script never computes with a cell, so a
  floating-point cell is kept as the literal that denotes it.
\<close>

datatype cell = IntCell int | FloatCell string | TextCell string | NullCell

type_synonym row = "cell list"

text \<open>\<open>pd.DataFrame\<close> as \<open>pd.read_csv\<close> returns it: the header, then the rows.\<close>

record dataframe =
  columns :: "string list"
  rows :: "row list"

text \<open>A table of the relational store, and the store: table name to table.\<close>

record table =
  tcolumns :: "string list"
  trows :: "row list"

type_synonym store = "string \<rightharpoonup> table"

datatype engine = Engine string

text \<open>The ways \<open>pd.read_csv\<close> fails.\<close>

datatype csv_failure = FileNotFound | EmptyData | ParserFailure

text \<open>The ways the writing statements of \<open>to_sql\<close> fail in the store.\<close>

datatype write_failure = SchemaRejected | PermissionDenied

text \<open>
  Everything the script can raise, by the call that raises it. The string of a store
  error is the driver's message.
\<close>

datatype error =
    KeyError string
  | ArgumentError string
  | ReadCsvError csv_failure
  | ValueError string
  | ConnectError string
  | WriteError write_failure
  | ExecuteError string
  | NoResultFound
  | MultipleResultsFound

text \<open>
  The error kinds of the specification. An error is classified by the call that raises
  it: a refused connection is of the connection kind, a failed \<open>execute\<close> and a
  failed \<open>scalar_one\<close> are of the query kind.
\<close>

datatype kind =
    ConfigurationKind
  | FileNotFoundKind
  | ParseKind
  | ConnectionKind
  | SchemaKind
  | PermissionKind
  | QueryKind

fun kind_of :: "error \<Rightarrow> kind" where
  "kind_of (KeyError k) = ConfigurationKind"
| "kind_of (ArgumentError u) = ConfigurationKind"
| "kind_of (ReadCsvError FileNotFound) = FileNotFoundKind"
| "kind_of (ReadCsvError EmptyData) = ParseKind"
| "kind_of (ReadCsvError ParserFailure) = ParseKind"
| "kind_of (ValueError m) = SchemaKind"
| "kind_of (ConnectError m) = ConnectionKind"
| "kind_of (WriteError SchemaRejected) = SchemaKind"
| "kind_of (WriteError PermissionDenied) = PermissionKind"
| "kind_of (ExecuteError m) = QueryKind"
| "kind_of NoResultFound = QueryKind"
| "kind_of MultipleResultsFound = QueryKind"

text \<open>The \<open>if_exists\<close> argument of \<open>DataFrame.to_sql\<close>.\<close>

datatype if_exists = Fail | Replace | Append

text \<open>The one statement the script executes: \<open>SELECT COUNT(*) FROM\<close> a table.\<close>

datatype query = SelectCount string

text \<open>
  What can go wrong with the count query: the store raises, or it answers with a result
  set of its own choosing (each row holds the one integer column of \<open>COUNT(*)\<close>).
\<close>

datatype query_fault = Raises string | Answers "int list"

text \<open>What the run leaves behind for an observer, in order.\<close>

datatype event =
    EnvLoaded string
  | EngineCreated string
  | CsvRead string
  | Connecting
  | Acquired nat
  | Released nat
  | Wrote nat string
  | Executed nat query

text \<open>
  The world outside the process. \<open>env_file\<close>: the key/value pairs of the env file at
  a path, none when the file is missing. \<open>engine_fault\<close>: the message with which
  \<open>create_engine\<close> rejects a URL. \<open>csv\<close>: what \<open>pd.read_csv\<close> makes of a path.
  \<open>upload_connect_fault\<close>, \<open>verify_connect_fault\<close>: the store refuses the
  connection. \<open>upload_fault\<close>: the write fails, with the state in which the store
  leaves the table. \<open>out_of_band\<close>: what other clients do to the store between the
  upload and the count query. \<open>query_fault\<close>: the count query misbehaves.
\<close>

record world =
  env_file :: "string \<Rightarrow> (string \<times> string) list"
  engine_fault :: "string \<Rightarrow> string option"
  csv :: "string \<Rightarrow> csv_failure + dataframe"
  upload_connect_fault :: "string option"
  upload_fault :: "(write_failure \<times> table option) option"
  out_of_band :: "store \<Rightarrow> store"
  verify_connect_fault :: "string option"
  query_fault :: "query_fault option"

text \<open>
  The state of one process and of the store it talks to. \<open>conns\<close> counts the
  connections handed out so far; a connection is named by its number.
\<close>

record state =
  environ :: "string \<rightharpoonup> string"
  tables :: store
  conns :: nat
  trace :: "event list"
  stdout :: "string list"

definition log_event :: "event \<Rightarrow> state \<Rightarrow> state" where
  "log_event e st = st\<lparr>trace := trace st @ [e]\<rparr>"

subsection \<open>Python's \<open>str\<close> on integers\<close>

definition digit :: "nat \<Rightarrow> char" where
  "digit d = ''0123456789'' ! d"

function str_nat :: "nat \<Rightarrow> string" where
  "str_nat n = (if n < 10 then [digit n] else str_nat (n div 10) @ [digit (n mod 10)])"
  by pat_completeness auto
termination
  by (relation "measure (\<lambda>n. n)") auto

declare str_nat.simps [simp del]

definition str :: "int \<Rightarrow> string" where
  "str i = (if i < 0 then CHR ''-'' # str_nat (nat (- i)) else str_nat (nat i))"

subsection \<open>Lines 7 to 12: configuration\<close>

text \<open>
  \<open>load_dotenv(path)\<close> with its default \<open>override=False\<close>: of two lines of the file
  with one key the later wins, and a variable the process already has keeps its value.
  A missing file sets nothing and raises nothing.
\<close>

definition dotenv_environ :: "world \<Rightarrow> string \<Rightarrow> (string \<rightharpoonup> string) \<Rightarrow> (string \<rightharpoonup> string)" where
  "dotenv_environ w path env = map_of (rev (env_file w path)) ++ env"

definition load_dotenv :: "world \<Rightarrow> string \<Rightarrow> state \<Rightarrow> state" where
  "load_dotenv w path st =
     log_event (EnvLoaded path) (st\<lparr>environ := dotenv_environ w path (environ st)\<rparr>)"

text \<open>\<open>os.environ[key]\<close>.\<close>

definition environ_getitem :: "string \<Rightarrow> state \<Rightarrow> error + string" where
  "environ_getitem key st =
     (case environ st key of None \<Rightarrow> Inl (KeyError key) | Some v \<Rightarrow> Inr v)"

text \<open>\<open>create_engine(url)\<close> parses the URL and connects to nothing.\<close>

definition create_engine :: "world \<Rightarrow> string \<Rightarrow> state \<Rightarrow> (error + engine) \<times> state" where
  "create_engine w url st =
     (case engine_fault w url of
        Some m \<Rightarrow> (Inl (ArgumentError m), st)
      | None \<Rightarrow> (Inr (Engine url), log_event (EngineCreated url) st))"

subsection \<open>Line 15: the loader\<close>

definition read_csv :: "world \<Rightarrow> string \<Rightarrow> state \<Rightarrow> (error + dataframe) \<times> state" where
  "read_csv w path st =
     (case csv w path of
        Inl f \<Rightarrow> (Inl (ReadCsvError f), log_event (CsvRead path) st)
      | Inr df \<Rightarrow> (Inr df, log_event (CsvRead path) st))"

subsection \<open>Line 19: the uploader\<close>

text \<open>
  \<open>engine.connect()\<close>: the attempt is logged; a refused connection raises and hands
  nothing out.
\<close>

definition connect :: "string option \<Rightarrow> state \<Rightarrow> (error + nat) \<times> state" where
  "connect fault st =
     (let st1 = log_event Connecting st in
      case fault of
        Some m \<Rightarrow> (Inl (ConnectError m), st1)
      | None \<Rightarrow> (Inr (conns st1), log_event (Acquired (conns st1)) (st1\<lparr>conns := Suc (conns st1)\<rparr>)))"

definition close :: "nat \<Rightarrow> state \<Rightarrow> state" where
  "close c st = log_event (Released c) st"

text \<open>
  The frame as \<open>to_sql\<close> writes it. With \<open>index=True\<close> the frame's index, the
  positions \<open>0, 1, ...\<close> for a frame from \<open>read_csv\<close>, becomes a first column named
  \<open>index\<close>.
\<close>

definition frame_table :: "bool \<Rightarrow> dataframe \<Rightarrow> table" where
  "frame_table index df =
     (if index
      then \<lparr>tcolumns = ''index'' # columns df,
            trows = map (\<lambda>(i, r). IntCell (int i) # r) (zip [0..<length (rows df)] (rows df))\<rparr>
      else \<lparr>tcolumns = columns df, trows = rows df\<rparr>)"

text \<open>
  The statements of \<open>to_sql\<close> on an open connection. \<open>fail\<close> raises when the table
  exists; \<open>replace\<close> drops the table when it exists, creates it from the frame and
  inserts the frame's rows; \<open>append\<close> inserts into the table when it exists, which the
  store rejects unless the columns agree.
\<close>

definition drop_table :: "string \<Rightarrow> store \<Rightarrow> store" where
  "drop_table name s = s(name := None)"

definition create_table :: "string \<Rightarrow> string list \<Rightarrow> store \<Rightarrow> store" where
  "create_table name cols s = s(name \<mapsto> \<lparr>tcolumns = cols, trows = []\<rparr>)"

definition insert_rows :: "string \<Rightarrow> row list \<Rightarrow> store \<Rightarrow> store" where
  "insert_rows name rs s =
     (case s name of None \<Rightarrow> s | Some t \<Rightarrow> s(name \<mapsto> t\<lparr>trows := trows t @ rs\<rparr>))"

definition write_frame :: "string \<Rightarrow> if_exists \<Rightarrow> table \<Rightarrow> store \<Rightarrow> error + store" where
  "write_frame name mode t s =
     (case s name of
        None \<Rightarrow> Inr (insert_rows name (trows t) (create_table name (tcolumns t) s))
      | Some old \<Rightarrow>
          (case mode of
             Fail \<Rightarrow> Inl (ValueError name)
           | Replace \<Rightarrow>
               Inr (insert_rows name (trows t)
                      (create_table name (tcolumns t) (drop_table name s)))
           | Append \<Rightarrow>
               if tcolumns old = tcolumns t then Inr (insert_rows name (trows t) s)
               else Inl (WriteError SchemaRejected)))"

text \<open>
  \<open>df.to_sql(name, engine, if_exists, index)\<close>. Given an engine, pandas takes a
  connection of its own from it, writes, and gives the connection back whether the write
  succeeded or not.
\<close>

definition to_sql ::
  "world \<Rightarrow> dataframe \<Rightarrow> string \<Rightarrow> engine \<Rightarrow> if_exists \<Rightarrow> bool \<Rightarrow> state \<Rightarrow> (error + unit) \<times> state" where
  "to_sql w df name eng mode index st =
     (case connect (upload_connect_fault w) st of
        (Inl e, st1) \<Rightarrow> (Inl e, st1)
      | (Inr c, st1) \<Rightarrow>
          (case upload_fault w of
             Some (f, residue) \<Rightarrow>
               (Inl (WriteError f),
                close c (log_event (Wrote c name) (st1\<lparr>tables := (tables st1)(name := residue)\<rparr>)))
           | None \<Rightarrow>
               (case write_frame name mode (frame_table index df) (tables st1) of
                  Inl e \<Rightarrow> (Inl e, close c (log_event (Wrote c name) st1))
                | Inr s \<Rightarrow> (Inr (), close c (log_event (Wrote c name) (st1\<lparr>tables := s\<rparr>))))))"

subsection \<open>Lines 22 to 42: the verifier\<close>

text \<open>\<open>df.shape[0]\<close>.\<close>

definition shape0 :: "dataframe \<Rightarrow> int" where
  "shape0 df = int (length (rows df))"

definition row_query :: query where
  "row_query = SelectCount ''loan_data''"

text \<open>
  \<open>connection.execute(query)\<close>: the result set. A store in order answers a count
  with one row, and raises when the table is not there.
\<close>

definition execute :: "world \<Rightarrow> nat \<Rightarrow> query \<Rightarrow> state \<Rightarrow> (error + int list) \<times> state" where
  "execute w c q st =
     (let st1 = log_event (Executed c q) st in
      case query_fault w of
        Some (Raises m) \<Rightarrow> (Inl (ExecuteError m), st1)
      | Some (Answers rs) \<Rightarrow> (Inr rs, st1)
      | None \<Rightarrow>
          (case q of SelectCount name \<Rightarrow>
             (case tables st1 name of
                None \<Rightarrow> (Inl (ExecuteError name), st1)
              | Some t \<Rightarrow> (Inr [int (length (trows t))], st1))))"

text \<open>\<open>Result.scalar_one()\<close>: the value of the one row, or an error.\<close>

fun scalar_one :: "int list \<Rightarrow> error + int" where
  "scalar_one [] = Inl NoResultFound"
| "scalar_one [v] = Inr v"
| "scalar_one (v # u # rs) = Inl MultipleResultsFound"

text \<open>
  Lines 34 and 35. The \<open>with\<close> block gives the connection back on every way out of
  its body. Other clients of the store have had their turn by the time the connection
  is open.
\<close>

definition count_rows :: "world \<Rightarrow> engine \<Rightarrow> state \<Rightarrow> (error + int) \<times> state" where
  "count_rows w eng st =
     (case connect (verify_connect_fault w) (st\<lparr>tables := out_of_band w (tables st)\<rparr>) of
        (Inl e, st1) \<Rightarrow> (Inl e, st1)
      | (Inr c, st1) \<Rightarrow>
          (case execute w c row_query st1 of
             (Inl e, st2) \<Rightarrow> (Inl e, close c st2)
           | (Inr rs, st2) \<Rightarrow>
               (case scalar_one rs of
                  Inl e \<Rightarrow> (Inl e, close c st2)
                | Inr v \<Rightarrow> (Inr v, close c st2))))"

text \<open>Lines 39 to 42: the line printed for the two counts.\<close>

definition report_line :: "int \<Rightarrow> int \<Rightarrow> string" where
  "report_line neon_row df_row =
     (if neon_row = df_row
      then ''Upload successful: '' @ str neon_row @ '' = '' @ str df_row @ ''. Row counts match.''
      else ''Upload Error: local='' @ str df_row @ '', neon='' @ str neon_row
             @ ''. Row counts do not match.'')"

definition print :: "string \<Rightarrow> state \<Rightarrow> state" where
  "print line st = st\<lparr>stdout := stdout st @ [line]\<rparr>"

subsection \<open>The script\<close>

definition main :: "world \<Rightarrow> state \<Rightarrow> (error + unit) \<times> state" where
  "main w st0 =
     (let st1 = load_dotenv w ''dburl.env'' st0 in
      case environ_getitem ''database_url'' st1 of
        Inl e \<Rightarrow> (Inl e, st1)
      | Inr connection_string \<Rightarrow>
     (case create_engine w connection_string st1 of
        (Inl e, st2) \<Rightarrow> (Inl e, st2)
      | (Inr eng, st2) \<Rightarrow>
     (case read_csv w ''data/loan.csv'' st2 of
        (Inl e, st3) \<Rightarrow> (Inl e, st3)
      | (Inr df, st3) \<Rightarrow>
     (case to_sql w df ''loan_data'' eng Replace False st3 of
        (Inl e, st4) \<Rightarrow> (Inl e, st4)
      | (Inr u, st4) \<Rightarrow>
     (let df_row = shape0 df in
      case count_rows w eng st4 of
        (Inl e, st5) \<Rightarrow> (Inl e, st5)
      | (Inr neon_row, st5) \<Rightarrow> (Inr (), print (report_line neon_row df_row) st5))))))"

text \<open>
  One run of the script as a process: it starts from the environment it is given and
  from the store as it is, with nothing else carried over.
\<close>

definition start :: "(string \<rightharpoonup> string) \<Rightarrow> store \<Rightarrow> state" where
  "start env s = \<lparr>environ = env, tables = s, conns = 0, trace = [], stdout = []\<rparr>"

definition run :: "world \<Rightarrow> (string \<rightharpoonup> string) \<Rightarrow> store \<Rightarrow> (error + unit) \<times> state" where
  "run w env s = main w (start env s)"

text \<open>The exit status of the interpreter: 1 for an uncaught exception.\<close>

fun exit_status :: "error + unit \<Rightarrow> nat" where
  "exit_status (Inl e) = 1"
| "exit_status (Inr u) = 0"

subsection \<open>Reading a trace\<close>







subsection \<open>Conditions on the world\<close>

text \<open>The configuration stage succeeds with connection string \<open>url\<close>.\<close>

definition configured :: "world \<Rightarrow> (string \<rightharpoonup> string) \<Rightarrow> string \<Rightarrow> bool" where
  "configured w env url =
     (dotenv_environ w ''dburl.env'' env ''database_url'' = Some url
      \<and> engine_fault w url = None)"

text \<open>The store accepts the upload.\<close>

definition upload_ok :: "world \<Rightarrow> bool" where
  "upload_ok w = (upload_connect_fault w = None \<and> upload_fault w = None)"

text \<open>The store fails nowhere.\<close>

definition store_ok :: "world \<Rightarrow> bool" where
  "store_ok w = (upload_ok w \<and> verify_connect_fault w = None \<and> query_fault w = None)"

subsection \<open>The scenarios of the specification\<close>

definition loan_frame :: dataframe where
  "loan_frame =
     \<lparr>columns = [''id'', ''amount''],
      rows = [[IntCell 1, FloatCell ''100.0''],
              [IntCell 2, FloatCell ''200.5''],
              [IntCell 3, FloatCell ''50.0'']]\<rparr>"

definition header_only :: dataframe where
  "header_only = \<lparr>columns = [''id'', ''amount''], rows = []\<rparr>"

text \<open>
  A world in which nothing fails: the env file holds the connection string, the CSV
  file parses to \<open>df\<close>, and nobody else touches the store.
\<close>

definition quiet_world :: "dataframe \<Rightarrow> world" where
  "quiet_world df =
     \<lparr>env_file = (\<lambda>p. if p = ''dburl.env'' then [(''database_url'', ''postgresql://neon/loans'')] else []),
      engine_fault = (\<lambda>u. None),
      csv = (\<lambda>p. if p = ''data/loan.csv'' then Inr df else Inl FileNotFound),
      upload_connect_fault = None,
      upload_fault = None,
      out_of_band = id,
      verify_connect_fault = None,
      query_fault = None\<rparr>"

text \<open>Another client cuts the table down to its first two rows.\<close>

definition truncate_to_two :: "store \<Rightarrow> store" where
  "truncate_to_two s =
     (case s ''loan_data'' of
        None \<Rightarrow> s
      | Some t \<Rightarrow> s(''loan_data'' \<mapsto> t\<lparr>trows := take 2 (trows t)\<rparr>))"

text \<open>A table left behind by an earlier, unrelated upload.\<close>

definition old_table :: table where
  "old_table = \<lparr>tcolumns = [''name''], trows = [[TextCell ''a''], [TextCell ''b'']]\<rparr>"

section \<open>What each call does\<close>

lemma str_nat_digit: "n < 10 \<Longrightarrow> str_nat n = [digit n]"
  by (simp add: str_nat.simps)

lemma write_frame_Replace: "write_frame name Replace t s = Inr (s(name \<mapsto> t))"
  by (auto simp: write_frame_def insert_rows_def create_table_def drop_table_def split: option.splits)

lemma connect_None:
  "connect None st =
     (Inr (conns st), st\<lparr>conns := Suc (conns st), trace := trace st @ [Connecting, Acquired (conns st)]\<rparr>)"
  by (simp add: connect_def log_event_def Let_def)

lemma connect_Some:
  "connect (Some m) st = (Inl (ConnectError m), st\<lparr>trace := trace st @ [Connecting]\<rparr>)"
  by (simp add: connect_def log_event_def Let_def)

lemma to_sql_connect_fail:
  "upload_connect_fault w = Some m \<Longrightarrow>
   to_sql w df name eng mode index st = (Inl (ConnectError m), st\<lparr>trace := trace st @ [Connecting]\<rparr>)"
  by (simp add: to_sql_def connect_Some)

lemma to_sql_write_fail:
  "upload_connect_fault w = None \<Longrightarrow> upload_fault w = Some (f, l) \<Longrightarrow>
   to_sql w df name eng mode index st =
     (Inl (WriteError f),
      st\<lparr>conns := Suc (conns st), tables := (tables st)(name := l),
         trace := trace st @ [Connecting, Acquired (conns st), Wrote (conns st) name, Released (conns st)]\<rparr>)"
  by (simp add: to_sql_def connect_None close_def log_event_def)

lemma to_sql_Replace_ok:
  "upload_ok w \<Longrightarrow>
   to_sql w df name eng Replace index st =
     (Inr (), st\<lparr>conns := Suc (conns st),
                 tables := (tables st)(name \<mapsto> frame_table index df),
                 trace := trace st @ [Connecting, Acquired (conns st), Wrote (conns st) name, Released (conns st)]\<rparr>)"
  by (simp add: to_sql_def upload_ok_def connect_None close_def log_event_def write_frame_Replace)

lemma to_sql_Replace_inv:
  assumes a: "to_sql w df name eng Replace index st = (Inr (), st')"
  shows "upload_ok w"
proof (cases "upload_connect_fault w")
  case None
  show ?thesis
  proof (cases "upload_fault w")
    case N2: None
    with None show ?thesis by (simp add: upload_ok_def)
  next
    case (Some p)
    obtain f l where "p = (f, l)" by (cases p)
    with a None Some show ?thesis by (simp add: to_sql_write_fail)
  qed
next
  case (Some m)
  with a show ?thesis by (simp add: to_sql_connect_fail)
qed

text \<open>The state in which the configuration and the loader leave a run.\<close>

lemma run_no_key:
  "dotenv_environ w ''dburl.env'' env ''database_url'' = None \<Longrightarrow>
   run w env s =
     (Inl (KeyError ''database_url''),
      \<lparr>environ = dotenv_environ w ''dburl.env'' env, tables = s, conns = 0,
       trace = [EnvLoaded ''dburl.env''], stdout = []\<rparr>)"
  by (simp add: run_def main_def start_def load_dotenv_def environ_getitem_def log_event_def)

lemma run_bad_url:
  "dotenv_environ w ''dburl.env'' env ''database_url'' = Some url \<Longrightarrow> engine_fault w url = Some m \<Longrightarrow>
   run w env s =
     (Inl (ArgumentError m),
      \<lparr>environ = dotenv_environ w ''dburl.env'' env, tables = s, conns = 0,
       trace = [EnvLoaded ''dburl.env''], stdout = []\<rparr>)"
  by (simp add: run_def main_def start_def load_dotenv_def environ_getitem_def log_event_def
      create_engine_def)

lemma run_csv_fail:
  "configured w env url \<Longrightarrow> csv w ''data/loan.csv'' = Inl f \<Longrightarrow>
   run w env s =
     (Inl (ReadCsvError f),
      \<lparr>environ = dotenv_environ w ''dburl.env'' env, tables = s, conns = 0,
       trace = [EnvLoaded ''dburl.env'', EngineCreated url, CsvRead ''data/loan.csv''], stdout = []\<rparr>)"
  by (simp add: configured_def run_def main_def start_def load_dotenv_def environ_getitem_def
      log_event_def create_engine_def read_csv_def)

lemma run_upload_connect_fail:
  "configured w env url \<Longrightarrow> csv w ''data/loan.csv'' = Inr D \<Longrightarrow> upload_connect_fault w = Some m \<Longrightarrow>
   run w env s =
     (Inl (ConnectError m),
      \<lparr>environ = dotenv_environ w ''dburl.env'' env, tables = s, conns = 0,
       trace = [EnvLoaded ''dburl.env'', EngineCreated url, CsvRead ''data/loan.csv'', Connecting],
       stdout = []\<rparr>)"
  by (simp add: configured_def run_def main_def start_def load_dotenv_def environ_getitem_def
      log_event_def create_engine_def read_csv_def to_sql_connect_fail)

lemma run_upload_write_fail:
  "configured w env url \<Longrightarrow> csv w ''data/loan.csv'' = Inr D \<Longrightarrow>
   upload_connect_fault w = None \<Longrightarrow> upload_fault w = Some (f, l) \<Longrightarrow>
   run w env s =
     (Inl (WriteError f),
      \<lparr>environ = dotenv_environ w ''dburl.env'' env, tables = s(''loan_data'' := l), conns = 1,
       trace = [EnvLoaded ''dburl.env'', EngineCreated url, CsvRead ''data/loan.csv'',
                Connecting, Acquired 0, Wrote 0 ''loan_data'', Released 0],
       stdout = []\<rparr>)"
  by (simp add: configured_def run_def main_def start_def load_dotenv_def environ_getitem_def
      log_event_def create_engine_def read_csv_def to_sql_write_fail)

text \<open>After a good upload the run is whatever the count makes of the state reached.\<close>

lemma run_uploaded:
  "configured w env url \<Longrightarrow> csv w ''data/loan.csv'' = Inr D \<Longrightarrow> upload_ok w \<Longrightarrow>
   run w env s =
     (case count_rows w (Engine url)
             \<lparr>environ = dotenv_environ w ''dburl.env'' env,
              tables = s(''loan_data'' \<mapsto> frame_table False D), conns = 1,
              trace = [EnvLoaded ''dburl.env'', EngineCreated url, CsvRead ''data/loan.csv'',
                       Connecting, Acquired 0, Wrote 0 ''loan_data'', Released 0],
              stdout = []\<rparr> of
        (Inl e, st5) \<Rightarrow> (Inl e, st5)
      | (Inr neon_row, st5) \<Rightarrow> (Inr (), print (report_line neon_row (shape0 D)) st5))"
  by (simp add: configured_def run_def main_def start_def load_dotenv_def environ_getitem_def
      log_event_def create_engine_def read_csv_def to_sql_Replace_ok Let_def)

lemma count_rows_connect_fail:
  "verify_connect_fault w = Some m \<Longrightarrow>
   count_rows w eng st =
     (Inl (ConnectError m),
      st\<lparr>tables := out_of_band w (tables st), trace := trace st @ [Connecting]\<rparr>)"
  by (simp add: count_rows_def connect_Some)

lemma count_rows_raises:
  "verify_connect_fault w = None \<Longrightarrow> query_fault w = Some (Raises m) \<Longrightarrow>
   count_rows w eng st =
     (Inl (ExecuteError m),
      st\<lparr>tables := out_of_band w (tables st), conns := Suc (conns st),
         trace := trace st @ [Connecting, Acquired (conns st), Executed (conns st) row_query,
                              Released (conns st)]\<rparr>)"
  by (simp add: count_rows_def connect_None execute_def close_def log_event_def Let_def)

lemma count_rows_answers:
  "verify_connect_fault w = None \<Longrightarrow> query_fault w = Some (Answers rs) \<Longrightarrow>
   count_rows w eng st =
     (scalar_one rs,
      st\<lparr>tables := out_of_band w (tables st), conns := Suc (conns st),
         trace := trace st @ [Connecting, Acquired (conns st), Executed (conns st) row_query,
                              Released (conns st)]\<rparr>)"
  by (cases "scalar_one rs")
     (simp_all add: count_rows_def connect_None execute_def close_def log_event_def Let_def)

lemma count_rows_missing:
  "verify_connect_fault w = None \<Longrightarrow> query_fault w = None \<Longrightarrow>
   out_of_band w (tables st) ''loan_data'' = None \<Longrightarrow>
   count_rows w eng st =
     (Inl (ExecuteError ''loan_data''),
      st\<lparr>tables := out_of_band w (tables st), conns := Suc (conns st),
         trace := trace st @ [Connecting, Acquired (conns st), Executed (conns st) row_query,
                              Released (conns st)]\<rparr>)"
  by (simp add: count_rows_def connect_None execute_def close_def log_event_def Let_def row_query_def)

lemma count_rows_counts:
  "verify_connect_fault w = None \<Longrightarrow> query_fault w = None \<Longrightarrow>
   out_of_band w (tables st) ''loan_data'' = Some t \<Longrightarrow>
   count_rows w eng st =
     (Inr (int (length (trows t))),
      st\<lparr>tables := out_of_band w (tables st), conns := Suc (conns st),
         trace := trace st @ [Connecting, Acquired (conns st), Executed (conns st) row_query,
                              Released (conns st)]\<rparr>)"
  by (simp add: count_rows_def connect_None execute_def close_def log_event_def Let_def row_query_def)

lemma run_verify_connect_fail:
  "configured w env url \<Longrightarrow> csv w ''data/loan.csv'' = Inr D \<Longrightarrow> upload_ok w \<Longrightarrow>
   verify_connect_fault w = Some m \<Longrightarrow>
   run w env s =
     (Inl (ConnectError m),
      \<lparr>environ = dotenv_environ w ''dburl.env'' env,
       tables = out_of_band w (s(''loan_data'' \<mapsto> frame_table False D)), conns = 1,
       trace = [EnvLoaded ''dburl.env'', EngineCreated url, CsvRead ''data/loan.csv'',
                Connecting, Acquired 0, Wrote 0 ''loan_data'', Released 0, Connecting],
       stdout = []\<rparr>)"
  by (simp add: run_uploaded count_rows_connect_fail)

lemma run_query_raises:
  "configured w env url \<Longrightarrow> csv w ''data/loan.csv'' = Inr D \<Longrightarrow> upload_ok w \<Longrightarrow>
   verify_connect_fault w = None \<Longrightarrow> query_fault w = Some (Raises m) \<Longrightarrow>
   run w env s =
     (Inl (ExecuteError m),
      \<lparr>environ = dotenv_environ w ''dburl.env'' env,
       tables = out_of_band w (s(''loan_data'' \<mapsto> frame_table False D)), conns = 2,
       trace = [EnvLoaded ''dburl.env'', EngineCreated url, CsvRead ''data/loan.csv'',
                Connecting, Acquired 0, Wrote 0 ''loan_data'', Released 0,
                Connecting, Acquired 1, Executed 1 row_query, Released 1],
       stdout = []\<rparr>)"
  by (simp add: run_uploaded count_rows_raises)

lemma run_query_answers:
  "configured w env url \<Longrightarrow> csv w ''data/loan.csv'' = Inr D \<Longrightarrow> upload_ok w \<Longrightarrow>
   verify_connect_fault w = None \<Longrightarrow> query_fault w = Some (Answers rs) \<Longrightarrow>
   run w env s =
     (case scalar_one rs of Inl e \<Rightarrow> Inl e | Inr v \<Rightarrow> Inr (),
      \<lparr>environ = dotenv_environ w ''dburl.env'' env,
       tables = out_of_band w (s(''loan_data'' \<mapsto> frame_table False D)), conns = 2,
       trace = [EnvLoaded ''dburl.env'', EngineCreated url, CsvRead ''data/loan.csv'',
                Connecting, Acquired 0, Wrote 0 ''loan_data'', Released 0,
                Connecting, Acquired 1, Executed 1 row_query, Released 1],
       stdout = (case scalar_one rs of Inl e \<Rightarrow> [] | Inr v \<Rightarrow> [report_line v (shape0 D)])\<rparr>)"
  by (cases "scalar_one rs") (simp_all add: run_uploaded count_rows_answers print_def)

lemma run_table_missing:
  "configured w env url \<Longrightarrow> csv w ''data/loan.csv'' = Inr D \<Longrightarrow> upload_ok w \<Longrightarrow>
   verify_connect_fault w = None \<Longrightarrow> query_fault w = None \<Longrightarrow>
   out_of_band w (s(''loan_data'' \<mapsto> frame_table False D)) ''loan_data'' = None \<Longrightarrow>
   run w env s =
     (Inl (ExecuteError ''loan_data''),
      \<lparr>environ = dotenv_environ w ''dburl.env'' env,
       tables = out_of_band w (s(''loan_data'' \<mapsto> frame_table False D)), conns = 2,
       trace = [EnvLoaded ''dburl.env'', EngineCreated url, CsvRead ''data/loan.csv'',
                Connecting, Acquired 0, Wrote 0 ''loan_data'', Released 0,
                Connecting, Acquired 1, Executed 1 row_query, Released 1],
       stdout = []\<rparr>)"
  by (simp add: run_uploaded count_rows_missing)

lemma run_counted:
  "configured w env url \<Longrightarrow> csv w ''data/loan.csv'' = Inr D \<Longrightarrow> upload_ok w \<Longrightarrow>
   verify_connect_fault w = None \<Longrightarrow> query_fault w = None \<Longrightarrow>
   out_of_band w (s(''loan_data'' \<mapsto> frame_table False D)) ''loan_data'' = Some t \<Longrightarrow>
   run w env s =
     (Inr (),
      \<lparr>environ = dotenv_environ w ''dburl.env'' env,
       tables = out_of_band w (s(''loan_data'' \<mapsto> frame_table False D)), conns = 2,
       trace = [EnvLoaded ''dburl.env'', EngineCreated url, CsvRead ''data/loan.csv'',
                Connecting, Acquired 0, Wrote 0 ''loan_data'', Released 0,
                Connecting, Acquired 1, Executed 1 row_query, Released 1],
       stdout = [report_line (int (length (trows t))) (shape0 D)]\<rparr>)"
  by (simp add: run_uploaded count_rows_counts print_def)

text \<open>Every run is one of ten.\<close>

lemma run_cases [case_names no_key bad_url csv_fail upload_connect upload_write
    verify_connect raises answers missing counted]:
  obtains
    "dotenv_environ w ''dburl.env'' env ''database_url'' = None"
  | url m where "dotenv_environ w ''dburl.env'' env ''database_url'' = Some url"
      "engine_fault w url = Some m"
  | url f where "configured w env url" "csv w ''data/loan.csv'' = Inl f"
  | url D m where "configured w env url" "csv w ''data/loan.csv'' = Inr D"
      "upload_connect_fault w = Some m"
  | url D f l where "configured w env url" "csv w ''data/loan.csv'' = Inr D"
      "upload_connect_fault w = None" "upload_fault w = Some (f, l)"
  | url D m where "configured w env url" "csv w ''data/loan.csv'' = Inr D" "upload_ok w"
      "verify_connect_fault w = Some m"
  | url D m where "configured w env url" "csv w ''data/loan.csv'' = Inr D" "upload_ok w"
      "verify_connect_fault w = None" "query_fault w = Some (Raises m)"
  | url D rs where "configured w env url" "csv w ''data/loan.csv'' = Inr D" "upload_ok w"
      "verify_connect_fault w = None" "query_fault w = Some (Answers rs)"
  | url D where "configured w env url" "csv w ''data/loan.csv'' = Inr D" "upload_ok w"
      "verify_connect_fault w = None" "query_fault w = None"
      "out_of_band w (s(''loan_data'' \<mapsto> frame_table False D)) ''loan_data'' = None"
  | url D t where "configured w env url" "csv w ''data/loan.csv'' = Inr D" "upload_ok w"
      "verify_connect_fault w = None" "query_fault w = None"
      "out_of_band w (s(''loan_data'' \<mapsto> frame_table False D)) ''loan_data'' = Some t"
proof (cases "dotenv_environ w ''dburl.env'' env ''database_url''")
  case None
  then show ?thesis using that(1) by blast
next
  case (Some url)
  note key = Some
  show ?thesis
  proof (cases "engine_fault w url")
    case (Some m)
    with key show ?thesis using that(2) by blast
  next
    case None
    with key have cfg: "configured w env url" by (simp add: configured_def)
    show ?thesis
    proof (cases "csv w ''data/loan.csv''")
      case (Inl f)
      with cfg show ?thesis using that(3) by blast
    next
      case (Inr D)
      note parsed = Inr
      show ?thesis
      proof (cases "upload_connect_fault w")
        case (Some m)
        with cfg parsed show ?thesis using that(4) by blast
      next
        case None
        note uc = None
        show ?thesis
        proof (cases "upload_fault w")
          case (Some p)
          obtain f l where "p = (f, l)" by (cases p)
          with Some cfg parsed uc show ?thesis using that(5) by blast
        next
          case None
          with uc have up: "upload_ok w" by (simp add: upload_ok_def)
          show ?thesis
          proof (cases "verify_connect_fault w")
            case (Some m)
            with cfg parsed up show ?thesis using that(6) by blast
          next
            case None
            note vc = None
            show ?thesis
            proof (cases "query_fault w")
              case (Some q)
              show ?thesis
              proof (cases q)
                case (Raises m)
                with Some cfg parsed up vc show ?thesis using that(7) by blast
              next
                case (Answers rs)
                with Some cfg parsed up vc show ?thesis using that(8) by blast
              qed
            next
              case None
              note qf = None
              show ?thesis
              proof (cases "out_of_band w (s(''loan_data'' \<mapsto> frame_table False D)) ''loan_data''")
                case None
                with cfg parsed up vc qf show ?thesis using that(9) by blast
              next
                case (Some t)
                with cfg parsed up vc qf show ?thesis using that(10) by blast
              qed
            qed
          qed
        qed
      qed
    qed
  qed
qed

lemma str_0: "str 0 = ''0''" by (simp add: str_def str_nat_digit digit_def)
lemma str_2: "str 2 = ''2''" by (simp add: str_def str_nat_digit digit_def)
lemma str_3: "str 3 = ''3''" by (simp add: str_def str_nat_digit digit_def)

text \<open>The quiet world meets every condition.\<close>

lemma quiet_configured: "configured (quiet_world df) Map.empty ''postgresql://neon/loans''"
  by (simp add: configured_def quiet_world_def dotenv_environ_def)

lemma quiet_csv: "csv (quiet_world df) ''data/loan.csv'' = Inr df"
  by (simp add: quiet_world_def)

lemma quiet_upload_ok: "upload_ok (quiet_world df)"
  by (simp add: upload_ok_def quiet_world_def)

lemma quiet_store_ok: "store_ok (quiet_world df)"
  by (simp add: store_ok_def upload_ok_def quiet_world_def)

lemma quiet_faults:
  "verify_connect_fault (quiet_world df) = None" "query_fault (quiet_world df) = None"
  by (simp_all add: quiet_world_def)

lemma quiet_undisturbed: "out_of_band (quiet_world df) = id"
  by (simp add: quiet_world_def)

text \<open>Once the upload has succeeded, the store a run leaves behind is known.\<close>

lemma run_uploaded_tables:
  assumes "configured w env url" "csv w ''data/loan.csv'' = Inr D" "upload_ok w"
  shows "tables (snd (run w env s)) = out_of_band w (s(''loan_data'' \<mapsto> frame_table False D))"
proof (cases rule: run_cases [where w = w and env = env and s = s])
  case no_key with assms show ?thesis by (simp add: configured_def)
next
  case (bad_url url' m) with assms show ?thesis by (simp add: configured_def)
next
  case (csv_fail url' f) with assms show ?thesis by simp
next
  case (upload_connect url' D' m) with assms show ?thesis by (simp add: upload_ok_def)
next
  case (upload_write url' D' f l) with assms show ?thesis by (simp add: upload_ok_def)
next
  case (verify_connect url' D' m) with assms show ?thesis by (simp add: run_verify_connect_fail)
next
  case (raises url' D' m) with assms show ?thesis by (simp add: run_query_raises)
next
  case (answers url' D' rs) with assms show ?thesis by (simp add: run_query_answers)
next
  case (missing url' D') with assms show ?thesis by (simp add: run_table_missing)
next
  case (counted url' D' t) with assms show ?thesis by (simp add: run_counted)
qed

lemma run_quiet:
  assumes "configured w env url" "csv w ''data/loan.csv'' = Inr D" "store_ok w" "out_of_band w = id"
  shows "run w env s =
     (Inr (),
      \<lparr>environ = dotenv_environ w ''dburl.env'' env,
       tables = s(''loan_data'' \<mapsto> frame_table False D), conns = 2,
       trace = [EnvLoaded ''dburl.env'', EngineCreated url, CsvRead ''data/loan.csv'',
                Connecting, Acquired 0, Wrote 0 ''loan_data'', Released 0,
                Connecting, Acquired 1, Executed 1 row_query, Released 1],
       stdout = [report_line (shape0 D) (shape0 D)]\<rparr>)"
proof -
  have "out_of_band w (s(''loan_data'' \<mapsto> frame_table False D)) ''loan_data'' = Some (frame_table False D)"
    using assms(4) by simp
  with assms show ?thesis
    by (simp add: run_counted [where t = "frame_table False D"] store_ok_def frame_table_def shape0_def)
qed

text \<open>
  Variants of the quiet world, with one field changed, stay configured.
\<close>

lemma quiet_variant_configured:
  "configured ((quiet_world df)\<lparr>csv := c\<rparr>) Map.empty ''postgresql://neon/loans''"
  "configured ((quiet_world df)\<lparr>upload_connect_fault := a\<rparr>) Map.empty ''postgresql://neon/loans''"
  "configured ((quiet_world df)\<lparr>upload_fault := b\<rparr>) Map.empty ''postgresql://neon/loans''"
  "configured ((quiet_world df)\<lparr>verify_connect_fault := a\<rparr>) Map.empty ''postgresql://neon/loans''"
  "configured ((quiet_world df)\<lparr>query_fault := q\<rparr>) Map.empty ''postgresql://neon/loans''"
  "configured ((quiet_world df)\<lparr>out_of_band := g\<rparr>) Map.empty ''postgresql://neon/loans''"
  by (simp_all add: configured_def quiet_world_def dotenv_environ_def)

text \<open>
  What a successful \<open>to_sql\<close> has written, for every mode and either setting of
  \<open>index\<close>.
\<close>

lemma write_frame_columns:
  "write_frame name mode t s = Inr s' \<Longrightarrow> \<exists>t'. s' name = Some t' \<and> tcolumns t' = tcolumns t"
  by (cases "s name"; cases mode)
     (auto simp: write_frame_def insert_rows_def create_table_def drop_table_def split: if_splits)

lemma to_sql_written:
  assumes "to_sql w df name eng mode index st = (Inr (), st')"
  shows "write_frame name mode (frame_table index df) (tables st) = Inr (tables st')"
proof (cases "upload_connect_fault w")
  case (Some m)
  with assms show ?thesis by (simp add: to_sql_connect_fail)
next
  case None
  show ?thesis
  proof (cases "upload_fault w")
    case (Some p)
    obtain f l where "p = (f, l)" by (cases p)
    with assms None Some show ?thesis by (simp add: to_sql_write_fail)
  next
    case N2: None
    show ?thesis
    proof (cases "write_frame name mode (frame_table index df) (tables st)")
      case (Inl e)
      with assms None N2 show ?thesis by (simp add: to_sql_def connect_None)
    next
      case (Inr s')
      with assms None N2 show ?thesis
        by (auto simp add: to_sql_def connect_None close_def log_event_def)
    qed
  qed
qed

lemma to_sql_index_column:
  "to_sql w df name eng Replace True st = (Inr (), st') \<Longrightarrow>
   \<exists>t. tables st' name = Some t \<and> tcolumns t = ''index'' # columns df"
proof -
  assume "to_sql w df name eng Replace True st = (Inr (), st')"
  then have "tables st' = (tables st)(name \<mapsto> frame_table True df)"
    by (auto dest!: to_sql_written simp add: write_frame_Replace)
  then show ?thesis by (simp add: frame_table_def)
qed

text \<open>
  A run that ends without an error has got past the upload.
\<close>

lemma run_succeeds_only_after_upload:
  assumes "fst (run w env s) = Inr ()"
  shows "\<exists>D. csv w ''data/loan.csv'' = Inr D
           \<and> tables (snd (run w env s)) = out_of_band w (s(''loan_data'' \<mapsto> frame_table False D))"
proof (cases rule: run_cases [where w = w and env = env and s = s])
  case no_key with assms show ?thesis by (simp add: run_no_key)
next
  case (bad_url url m) with assms show ?thesis by (simp add: run_bad_url)
next
  case (csv_fail url f) with assms show ?thesis by (simp add: run_csv_fail)
next
  case (upload_connect url D m) with assms show ?thesis by (simp add: run_upload_connect_fail)
next
  case (upload_write url D f l) with assms show ?thesis by (simp add: run_upload_write_fail)
next
  case (verify_connect url D m) then show ?thesis by (simp add: run_uploaded_tables)
next
  case (raises url D m) then show ?thesis by (simp add: run_uploaded_tables)
next
  case (answers url D rs) then show ?thesis by (simp add: run_uploaded_tables)
next
  case (missing url D) then show ?thesis by (simp add: run_uploaded_tables)
next
  case (counted url D t) then show ?thesis by (simp add: run_uploaded_tables)
qed

section \<open>The claims\<close>

subsection \<open>C1: the row count survives the upload\<close>

text \<open>
  Claim C1. For every data set \<open>D\<close> with \<open>N\<close> rows, \<open>N = 0\<close> included, when the
  configuration and the loader succeed, the store accepts the upload and nobody else
  touches the store, the run leaves a table \<open>loan_data\<close> with \<open>N\<close> rows. When
  the store answers the count query as well, the run ends without an error and prints
  the success line with \<open>N\<close> on both sides; for a data set with no rows that line is
  \<open>Upload successful: 0 = 0. Row counts match.\<close>
\<close>

theorem upload_row_count:
  assumes "configured w env url" and "csv w ''data/loan.csv'' = Inr D"
    and "upload_ok w" and "out_of_band w = id"
  shows "(\<exists>t. tables (snd (run w env s)) ''loan_data'' = Some t \<and> int (length (trows t)) = shape0 D)
    \<and> (verify_connect_fault w = None \<and> query_fault w = None \<longrightarrow>
         fst (run w env s) = Inr ()
         \<and> stdout (snd (run w env s)) = [report_line (shape0 D) (shape0 D)]
         \<and> (rows D = [] \<longrightarrow>
              stdout (snd (run w env s)) = [''Upload successful: 0 = 0. Row counts match.'']))"
proof -
  have "tables (snd (run w env s)) ''loan_data'' = Some (frame_table False D)"
    using assms by (simp add: run_uploaded_tables)
  then have first: "\<exists>t. tables (snd (run w env s)) ''loan_data'' = Some t \<and> int (length (trows t)) = shape0 D"
    by (simp add: frame_table_def shape0_def)
  have second: "fst (run w env s) = Inr ()
         \<and> stdout (snd (run w env s)) = [report_line (shape0 D) (shape0 D)]
         \<and> (rows D = [] \<longrightarrow>
              stdout (snd (run w env s)) = [''Upload successful: 0 = 0. Row counts match.''])"
    if "verify_connect_fault w = None" "query_fault w = None"
  proof -
    from that assms have "store_ok w" by (simp add: store_ok_def)
    then have "run w env s = (Inr (),
      \<lparr>environ = dotenv_environ w ''dburl.env'' env,
       tables = s(''loan_data'' \<mapsto> frame_table False D), conns = 2,
       trace = [EnvLoaded ''dburl.env'', EngineCreated url, CsvRead ''data/loan.csv'',
                Connecting, Acquired 0, Wrote 0 ''loan_data'', Released 0,
                Connecting, Acquired 1, Executed 1 row_query, Released 1],
       stdout = [report_line (shape0 D) (shape0 D)]\<rparr>)"
      using assms(1,2,4) by (simp add: run_quiet)
    then show ?thesis by (simp add: shape0_def report_line_def str_0)
  qed
  from first second show ?thesis by blast
qed

text \<open>
  The claim at a header-only file, uploaded over a table that an earlier upload left
  behind with other columns and two rows.
\<close>

theorem upload_row_count_witness:
  "(\<exists>t. tables (snd (run (quiet_world header_only) Map.empty [''loan_data'' \<mapsto> old_table])) ''loan_data'' = Some t
        \<and> int (length (trows t)) = 0)
   \<and> fst (run (quiet_world header_only) Map.empty [''loan_data'' \<mapsto> old_table]) = Inr ()
   \<and> stdout (snd (run (quiet_world header_only) Map.empty [''loan_data'' \<mapsto> old_table]))
       = [''Upload successful: 0 = 0. Row counts match.'']"
  using upload_row_count [where w = "quiet_world header_only" and s = "[''loan_data'' \<mapsto> old_table]",
      OF quiet_configured quiet_csv quiet_upload_ok quiet_undisturbed]
  by (simp add: quiet_faults header_only_def shape0_def report_line_def str_0)

subsection \<open>C2: the match report\<close>


subsection \<open>C3: the mismatch report\<close>

text \<open>
  Claim C3. When the configuration, the loader and the upload succeed and the store
  answers the count query, and the table then holds a number of rows other than the
  data set's (another client has changed it in between), the run raises nothing, ends
  with exit status 0 and prints
  \<open>Upload Error: local={local}, neon={remote}. Row counts do not match.\<close>
  For every pair of unequal counts that is the line the comparison produces.
\<close>

theorem mismatch_report:
  assumes "configured w env url" and "csv w ''data/loan.csv'' = Inr D" and "store_ok w"
    and "out_of_band w (s(''loan_data'' \<mapsto> frame_table False D)) ''loan_data'' = Some t"
    and "int (length (trows t)) \<noteq> shape0 D"
  shows "fst (run w env s) = Inr ()
    \<and> exit_status (fst (run w env s)) = 0
    \<and> stdout (snd (run w env s)) =
        [''Upload Error: local='' @ str (shape0 D) @ '', neon='' @ str (int (length (trows t)))
           @ ''. Row counts do not match.'']
    \<and> (neon_row \<noteq> df_row \<longrightarrow>
         report_line neon_row df_row =
           ''Upload Error: local='' @ str df_row @ '', neon='' @ str neon_row
             @ ''. Row counts do not match.'')"
proof -
  from assms(3) have "upload_ok w" "verify_connect_fault w = None" "query_fault w = None"
    by (simp_all add: store_ok_def)
  with assms(1,2,4) have "run w env s =
     (Inr (),
      \<lparr>environ = dotenv_environ w ''dburl.env'' env,
       tables = out_of_band w (s(''loan_data'' \<mapsto> frame_table False D)), conns = 2,
       trace = [EnvLoaded ''dburl.env'', EngineCreated url, CsvRead ''data/loan.csv'',
                Connecting, Acquired 0, Wrote 0 ''loan_data'', Released 0,
                Connecting, Acquired 1, Executed 1 row_query, Released 1],
       stdout = [report_line (int (length (trows t))) (shape0 D)]\<rparr>)"
    by (simp add: run_counted)
  with assms(5) show ?thesis by (simp add: report_line_def)
qed

text \<open>
  The scenario of the specification: three rows uploaded, the table cut down to two
  before the count.
\<close>

theorem mismatch_report_witness:
  "fst (run ((quiet_world loan_frame)\<lparr>out_of_band := truncate_to_two\<rparr>) Map.empty Map.empty) = Inr ()
   \<and> exit_status (fst (run ((quiet_world loan_frame)\<lparr>out_of_band := truncate_to_two\<rparr>) Map.empty Map.empty)) = 0
   \<and> stdout (snd (run ((quiet_world loan_frame)\<lparr>out_of_band := truncate_to_two\<rparr>) Map.empty Map.empty))
       = [''Upload Error: local=3, neon=2. Row counts do not match.'']
   \<and> report_line 2 3 = ''Upload Error: local=3, neon=2. Row counts do not match.''"
proof -
  let ?w = "(quiet_world loan_frame)\<lparr>out_of_band := truncate_to_two\<rparr>"
  let ?t = "\<lparr>tcolumns = [''id'', ''amount''],
             trows = [[IntCell 1, FloatCell ''100.0''], [IntCell 2, FloatCell ''200.5'']]\<rparr>"
  have c: "csv ?w ''data/loan.csv'' = Inr loan_frame" by (simp add: quiet_world_def)
  have ok: "store_ok ?w" by (simp add: store_ok_def upload_ok_def quiet_world_def)
  have t: "out_of_band ?w (Map.empty(''loan_data'' \<mapsto> frame_table False loan_frame)) ''loan_data'' = Some ?t"
    by (simp add: truncate_to_two_def frame_table_def loan_frame_def)
  have n: "int (length (trows ?t)) \<noteq> shape0 loan_frame"
    by (simp add: shape0_def loan_frame_def)
  show ?thesis
    using mismatch_report [OF quiet_variant_configured(6) c ok t n, where neon_row = 2 and df_row = 3]
    by (simp add: shape0_def loan_frame_def str_2 str_3)
qed

subsection \<open>C4: replace, not append\<close>

text \<open>
  Claim C4. For every state of the store, when \<open>D1\<close> is uploaded to a table and then
  \<open>D2\<close> to the same table, both with \<open>if_exists="replace"\<close> and both accepted by
  the store, the store is the one before the two uploads with the table holding the
  columns and the rows of \<open>D2\<close>: nothing of \<open>D1\<close> and nothing of what the table
  held before is left. The store promises no row order, so the rows are also stated as
  a multiset.
\<close>

theorem replace_semantics:
  assumes "to_sql w1 D1 name eng1 Replace False st = (Inr (), st1)"
    and "to_sql w2 D2 name eng2 Replace False st1 = (Inr (), st2)"
  shows "tables st2 = (tables st)(name \<mapsto> \<lparr>tcolumns = columns D2, trows = rows D2\<rparr>)
    \<and> (\<exists>t. tables st2 name = Some t \<and> tcolumns t = columns D2 \<and> mset (trows t) = mset (rows D2))"
proof -
  from assms(1) have "tables st1 = (tables st)(name \<mapsto> frame_table False D1)"
    by (auto dest!: to_sql_written simp add: write_frame_Replace)
  moreover from assms(2) have "tables st2 = (tables st1)(name \<mapsto> frame_table False D2)"
    by (auto dest!: to_sql_written simp add: write_frame_Replace)
  ultimately show ?thesis by (simp add: frame_table_def)
qed

text \<open>
  Three rows uploaded over an older table of another schema, then a header-only file
  over those: the table ends with the header's columns and no row.
\<close>

theorem replace_semantics_witness:
  "tables (snd (to_sql (quiet_world header_only) header_only ''loan_data'' (Engine ''u'') Replace False
      (snd (to_sql (quiet_world loan_frame) loan_frame ''loan_data'' (Engine ''u'') Replace False
         (start Map.empty [''loan_data'' \<mapsto> old_table])))))
     = [''loan_data'' \<mapsto> \<lparr>tcolumns = [''id'', ''amount''], trows = []\<rparr>]"
proof -
  let ?st = "start Map.empty [''loan_data'' \<mapsto> old_table]"
  let ?st1 = "snd (to_sql (quiet_world loan_frame) loan_frame ''loan_data'' (Engine ''u'') Replace False ?st)"
  let ?st2 = "snd (to_sql (quiet_world header_only) header_only ''loan_data'' (Engine ''u'') Replace False ?st1)"
  have a: "to_sql (quiet_world loan_frame) loan_frame ''loan_data'' (Engine ''u'') Replace False ?st = (Inr (), ?st1)"
    by (simp add: to_sql_Replace_ok quiet_upload_ok)
  have b: "to_sql (quiet_world header_only) header_only ''loan_data'' (Engine ''u'') Replace False ?st1 = (Inr (), ?st2)"
    by (simp add: to_sql_Replace_ok quiet_upload_ok)
  show ?thesis
    using replace_semantics [OF a b] by (simp add: start_def header_only_def)
qed

subsection \<open>C5: fail fast\<close>

text \<open>
  Claim C5. Once the configuration has succeeded, an error raised by the loader, by the
  uploader (refused connection or failed write) or by the verifier (refused connection,
  failed query, or a result set that is not one row) is the result of the run,
  unchanged; the trace ends with the call that raised (after the release of its
  connection, when it had one), so no later stage has run and no call has been made
  twice; and nothing has been printed.
\<close>

theorem fail_fast:
  assumes "configured w env url"
  shows
   "(csv w ''data/loan.csv'' = Inl f \<longrightarrow>
       fst (run w env s) = Inl (ReadCsvError f)
       \<and> trace (snd (run w env s))
           = [EnvLoaded ''dburl.env'', EngineCreated url, CsvRead ''data/loan.csv'']
       \<and> tables (snd (run w env s)) = s
       \<and> stdout (snd (run w env s)) = [])
  \<and> (csv w ''data/loan.csv'' = Inr D \<and> upload_connect_fault w = Some mu \<longrightarrow>
       fst (run w env s) = Inl (ConnectError mu)
       \<and> trace (snd (run w env s))
           = [EnvLoaded ''dburl.env'', EngineCreated url, CsvRead ''data/loan.csv'', Connecting]
       \<and> tables (snd (run w env s)) = s
       \<and> stdout (snd (run w env s)) = [])
  \<and> (csv w ''data/loan.csv'' = Inr D \<and> upload_connect_fault w = None
        \<and> upload_fault w = Some (cause, residue) \<longrightarrow>
       fst (run w env s) = Inl (WriteError cause)
       \<and> trace (snd (run w env s))
           = [EnvLoaded ''dburl.env'', EngineCreated url, CsvRead ''data/loan.csv'',
              Connecting, Acquired 0, Wrote 0 ''loan_data'', Released 0]
       \<and> stdout (snd (run w env s)) = [])
  \<and> (csv w ''data/loan.csv'' = Inr D \<and> upload_ok w \<and> verify_connect_fault w = Some mv \<longrightarrow>
       fst (run w env s) = Inl (ConnectError mv)
       \<and> trace (snd (run w env s))
           = [EnvLoaded ''dburl.env'', EngineCreated url, CsvRead ''data/loan.csv'',
              Connecting, Acquired 0, Wrote 0 ''loan_data'', Released 0, Connecting]
       \<and> stdout (snd (run w env s)) = [])
  \<and> (csv w ''data/loan.csv'' = Inr D \<and> upload_ok w \<and> verify_connect_fault w = None
        \<and> query_fault w = Some (Raises mq) \<longrightarrow>
       fst (run w env s) = Inl (ExecuteError mq)
       \<and> trace (snd (run w env s))
           = [EnvLoaded ''dburl.env'', EngineCreated url, CsvRead ''data/loan.csv'',
              Connecting, Acquired 0, Wrote 0 ''loan_data'', Released 0,
              Connecting, Acquired 1, Executed 1 row_query, Released 1]
       \<and> stdout (snd (run w env s)) = [])
  \<and> (csv w ''data/loan.csv'' = Inr D \<and> upload_ok w \<and> verify_connect_fault w = None
        \<and> query_fault w = Some (Answers rs) \<and> scalar_one rs = Inl e \<longrightarrow>
       fst (run w env s) = Inl e
       \<and> trace (snd (run w env s))
           = [EnvLoaded ''dburl.env'', EngineCreated url, CsvRead ''data/loan.csv'',
              Connecting, Acquired 0, Wrote 0 ''loan_data'', Released 0,
              Connecting, Acquired 1, Executed 1 row_query, Released 1]
       \<and> stdout (snd (run w env s)) = [])"
  using assms
  by (simp add: run_csv_fail run_upload_connect_fail run_upload_write_fail
      run_verify_connect_fail run_query_raises run_query_answers)

text \<open>
  One world for each of the six failures.
\<close>

theorem fail_fast_witness:
  "fst (run ((quiet_world loan_frame)\<lparr>csv := \<lambda>p. Inl FileNotFound\<rparr>) Map.empty Map.empty)
     = Inl (ReadCsvError FileNotFound)
   \<and> trace (snd (run ((quiet_world loan_frame)\<lparr>csv := \<lambda>p. Inl FileNotFound\<rparr>) Map.empty Map.empty))
     = [EnvLoaded ''dburl.env'', EngineCreated ''postgresql://neon/loans'', CsvRead ''data/loan.csv'']
   \<and> fst (run ((quiet_world loan_frame)\<lparr>upload_connect_fault := Some ''refused''\<rparr>) Map.empty Map.empty)
     = Inl (ConnectError ''refused'')
   \<and> stdout (snd (run ((quiet_world loan_frame)\<lparr>upload_connect_fault := Some ''refused''\<rparr>) Map.empty Map.empty))
     = []
   \<and> fst (run ((quiet_world loan_frame)\<lparr>upload_fault := Some (PermissionDenied, None)\<rparr>) Map.empty Map.empty)
     = Inl (WriteError PermissionDenied)
   \<and> stdout (snd (run ((quiet_world loan_frame)\<lparr>upload_fault := Some (PermissionDenied, None)\<rparr>) Map.empty Map.empty))
     = []
   \<and> fst (run ((quiet_world loan_frame)\<lparr>verify_connect_fault := Some ''refused''\<rparr>) Map.empty Map.empty)
     = Inl (ConnectError ''refused'')
   \<and> stdout (snd (run ((quiet_world loan_frame)\<lparr>verify_connect_fault := Some ''refused''\<rparr>) Map.empty Map.empty))
     = []
   \<and> fst (run ((quiet_world loan_frame)\<lparr>query_fault := Some (Raises ''timeout'')\<rparr>) Map.empty Map.empty)
     = Inl (ExecuteError ''timeout'')
   \<and> stdout (snd (run ((quiet_world loan_frame)\<lparr>query_fault := Some (Raises ''timeout'')\<rparr>) Map.empty Map.empty))
     = []
   \<and> fst (run ((quiet_world loan_frame)\<lparr>query_fault := Some (Answers [])\<rparr>) Map.empty Map.empty)
     = Inl NoResultFound
   \<and> stdout (snd (run ((quiet_world loan_frame)\<lparr>query_fault := Some (Answers [])\<rparr>) Map.empty Map.empty))
     = []"
proof -
  let ?u = "''postgresql://neon/loans''"
  have 1: "fst (run ((quiet_world loan_frame)\<lparr>csv := \<lambda>p. Inl FileNotFound\<rparr>) Map.empty Map.empty)
     = Inl (ReadCsvError FileNotFound)
   \<and> trace (snd (run ((quiet_world loan_frame)\<lparr>csv := \<lambda>p. Inl FileNotFound\<rparr>) Map.empty Map.empty))
     = [EnvLoaded ''dburl.env'', EngineCreated ?u, CsvRead ''data/loan.csv'']"
    using fail_fast [where w = "(quiet_world loan_frame)\<lparr>csv := \<lambda>p. Inl FileNotFound\<rparr>" and env = Map.empty and s = Map.empty
        and f = FileNotFound, OF quiet_variant_configured(1)]
    by (simp add: quiet_world_def)
  have 2: "fst (run ((quiet_world loan_frame)\<lparr>upload_connect_fault := Some ''refused''\<rparr>) Map.empty Map.empty)
     = Inl (ConnectError ''refused'')
   \<and> stdout (snd (run ((quiet_world loan_frame)\<lparr>upload_connect_fault := Some ''refused''\<rparr>) Map.empty Map.empty))
     = []"
    using fail_fast [where w = "(quiet_world loan_frame)\<lparr>upload_connect_fault := Some ''refused''\<rparr>" and env = Map.empty and s = Map.empty
        and D = loan_frame and mu = "''refused''", OF quiet_variant_configured(2)]
    by (simp add: quiet_world_def)
  have 3: "fst (run ((quiet_world loan_frame)\<lparr>upload_fault := Some (PermissionDenied, None)\<rparr>) Map.empty Map.empty)
     = Inl (WriteError PermissionDenied)
   \<and> stdout (snd (run ((quiet_world loan_frame)\<lparr>upload_fault := Some (PermissionDenied, None)\<rparr>) Map.empty Map.empty))
     = []"
    using fail_fast [where w = "(quiet_world loan_frame)\<lparr>upload_fault := Some (PermissionDenied, None)\<rparr>" and env = Map.empty and s = Map.empty
        and D = loan_frame and cause = PermissionDenied and residue = None, OF quiet_variant_configured(3)]
    by (simp add: quiet_world_def)
  have 4: "fst (run ((quiet_world loan_frame)\<lparr>verify_connect_fault := Some ''refused''\<rparr>) Map.empty Map.empty)
     = Inl (ConnectError ''refused'')
   \<and> stdout (snd (run ((quiet_world loan_frame)\<lparr>verify_connect_fault := Some ''refused''\<rparr>) Map.empty Map.empty))
     = []"
    using fail_fast [where w = "(quiet_world loan_frame)\<lparr>verify_connect_fault := Some ''refused''\<rparr>" and env = Map.empty and s = Map.empty
        and D = loan_frame and mv = "''refused''", OF quiet_variant_configured(4)]
    by (simp add: quiet_world_def upload_ok_def)
  have 5: "fst (run ((quiet_world loan_frame)\<lparr>query_fault := Some (Raises ''timeout'')\<rparr>) Map.empty Map.empty)
     = Inl (ExecuteError ''timeout'')
   \<and> stdout (snd (run ((quiet_world loan_frame)\<lparr>query_fault := Some (Raises ''timeout'')\<rparr>) Map.empty Map.empty))
     = []"
    using fail_fast [where w = "(quiet_world loan_frame)\<lparr>query_fault := Some (Raises ''timeout'')\<rparr>" and env = Map.empty and s = Map.empty
        and D = loan_frame and mq = "''timeout''", OF quiet_variant_configured(5)]
    by (simp add: quiet_world_def upload_ok_def)
  have 6: "fst (run ((quiet_world loan_frame)\<lparr>query_fault := Some (Answers [])\<rparr>) Map.empty Map.empty)
     = Inl NoResultFound
   \<and> stdout (snd (run ((quiet_world loan_frame)\<lparr>query_fault := Some (Answers [])\<rparr>) Map.empty Map.empty))
     = []"
    using fail_fast [where w = "(quiet_world loan_frame)\<lparr>query_fault := Some (Answers [])\<rparr>" and env = Map.empty and s = Map.empty
        and D = loan_frame and rs = "[]" and e = NoResultFound, OF quiet_variant_configured(5)]
    by (simp add: quiet_world_def upload_ok_def)
  from 1 2 3 4 5 6 show ?thesis by blast
qed

subsection \<open>C6: an ill-formed count is an error\<close>

text \<open>
  Claim C6. After a successful upload, when the connection for the count query is
  refused, or the query raises, or the table is gone, or the store answers with a
  result set that is not exactly one row, the run fails with an error of the
  connection kind or of the query kind and prints nothing. No row gives
  \<open>NoResultFound\<close>, two or more rows give \<open>MultipleResultsFound\<close>, and exactly one
  row is compared and reported.
\<close>

theorem count_query_failure:
  assumes "configured w env url" and "csv w ''data/loan.csv'' = Inr D" and "upload_ok w"
  shows
   "(verify_connect_fault w \<noteq> None
      \<or> (\<exists>m. query_fault w = Some (Raises m))
      \<or> (\<exists>rs. query_fault w = Some (Answers rs) \<and> length rs \<noteq> 1)
      \<or> (query_fault w = None
           \<and> out_of_band w (s(''loan_data'' \<mapsto> frame_table False D)) ''loan_data'' = None)
     \<longrightarrow> (\<exists>e. fst (run w env s) = Inl e \<and> (kind_of e = ConnectionKind \<or> kind_of e = QueryKind))
          \<and> stdout (snd (run w env s)) = [])
    \<and> (verify_connect_fault w = None \<and> query_fault w = Some (Answers []) \<longrightarrow>
          fst (run w env s) = Inl NoResultFound)
    \<and> (verify_connect_fault w = None \<and> query_fault w = Some (Answers (a # b # others)) \<longrightarrow>
          fst (run w env s) = Inl MultipleResultsFound)
    \<and> (verify_connect_fault w = None \<and> query_fault w = Some (Answers [v]) \<longrightarrow>
          fst (run w env s) = Inr () \<and> stdout (snd (run w env s)) = [report_line v (shape0 D)])"
proof (cases "verify_connect_fault w")
  case (Some m)
  with assms show ?thesis by (simp add: run_verify_connect_fail)
next
  case None
  note vc = None
  show ?thesis
  proof (cases "query_fault w")
    case None
    show ?thesis
    proof (cases "out_of_band w (s(''loan_data'' \<mapsto> frame_table False D)) ''loan_data''")
      case N3: None
      with assms vc None show ?thesis by (simp add: run_table_missing)
    next
      case (Some t)
      with assms vc None show ?thesis by simp
    qed
  next
    case (Some q)
    show ?thesis
    proof (cases q)
      case (Raises m)
      with assms vc Some show ?thesis by (simp add: run_query_raises)
    next
      case (Answers rs)
      show ?thesis
      proof (cases rs rule: scalar_one.cases)
        case 1
        with assms vc Some Answers show ?thesis by (simp add: run_query_answers)
      next
        case (2 v')
        with assms vc Some Answers show ?thesis by (simp add: run_query_answers)
      next
        case (3 v' u' rs')
        with assms vc Some Answers show ?thesis by (simp add: run_query_answers)
      qed
    qed
  qed
qed

text \<open>
  A store that answers the count with two rows, with none, and with one.
\<close>

theorem count_query_failure_witness:
  "(\<exists>e. fst (run ((quiet_world loan_frame)\<lparr>query_fault := Some (Answers [3, 3])\<rparr>) Map.empty Map.empty) = Inl e
        \<and> (kind_of e = ConnectionKind \<or> kind_of e = QueryKind))
   \<and> stdout (snd (run ((quiet_world loan_frame)\<lparr>query_fault := Some (Answers [3, 3])\<rparr>) Map.empty Map.empty)) = []
   \<and> fst (run ((quiet_world loan_frame)\<lparr>query_fault := Some (Answers [3, 3])\<rparr>) Map.empty Map.empty)
       = Inl MultipleResultsFound
   \<and> fst (run ((quiet_world loan_frame)\<lparr>query_fault := Some (Answers [])\<rparr>) Map.empty Map.empty)
       = Inl NoResultFound
   \<and> fst (run ((quiet_world loan_frame)\<lparr>query_fault := Some (Answers [3])\<rparr>) Map.empty Map.empty)
       = Inr ()"
proof -
  have up: "upload_ok ((quiet_world loan_frame)\<lparr>query_fault := q\<rparr>)" for q
    by (simp add: upload_ok_def quiet_world_def)
  have parsed: "csv ((quiet_world loan_frame)\<lparr>query_fault := q\<rparr>) ''data/loan.csv'' = Inr loan_frame" for q
    by (simp add: quiet_world_def)
  have two: "(\<exists>e. fst (run ((quiet_world loan_frame)\<lparr>query_fault := Some (Answers [3, 3])\<rparr>) Map.empty Map.empty) = Inl e
        \<and> (kind_of e = ConnectionKind \<or> kind_of e = QueryKind))
   \<and> stdout (snd (run ((quiet_world loan_frame)\<lparr>query_fault := Some (Answers [3, 3])\<rparr>) Map.empty Map.empty)) = []
   \<and> fst (run ((quiet_world loan_frame)\<lparr>query_fault := Some (Answers [3, 3])\<rparr>) Map.empty Map.empty)
       = Inl MultipleResultsFound"
    using count_query_failure [OF quiet_variant_configured(5) parsed up,
        where s = Map.empty and a = 3 and b = 3 and others = "[]"]
    by (simp add: quiet_world_def)
  have none: "fst (run ((quiet_world loan_frame)\<lparr>query_fault := Some (Answers [])\<rparr>) Map.empty Map.empty)
       = Inl NoResultFound"
    using count_query_failure [OF quiet_variant_configured(5) parsed up, where s = Map.empty]
    by (simp add: quiet_world_def)
  have one: "fst (run ((quiet_world loan_frame)\<lparr>query_fault := Some (Answers [3])\<rparr>) Map.empty Map.empty)
       = Inr ()"
    using count_query_failure [OF quiet_variant_configured(5) parsed up,
        where s = Map.empty and v = 3]
    by (simp add: quiet_world_def)
  from two none one show ?thesis by blast
qed

subsection \<open>C7: connections\<close>




subsection \<open>C8: running twice\<close>

text \<open>
  Claim C8. A run starts from the environment of its process and from the store, and
  from nothing else. When two runs read the same input file, end without an error, and
  nobody else touches the store, the second run, started on the store the first has
  left, leaves the same store: the table holds what it held after the first run.
\<close>

theorem rerun_same_table:
  assumes "csv w2 ''data/loan.csv'' = csv w1 ''data/loan.csv''"
    and "out_of_band w1 = id" and "out_of_band w2 = id"
    and "fst (run w1 env1 s) = Inr ()"
    and "fst (run w2 env2 (tables (snd (run w1 env1 s)))) = Inr ()"
  shows "tables (snd (run w2 env2 (tables (snd (run w1 env1 s))))) = tables (snd (run w1 env1 s))"
proof -
  from assms(4) obtain D where
    D: "csv w1 ''data/loan.csv'' = Inr D"
    and one: "tables (snd (run w1 env1 s)) = out_of_band w1 (s(''loan_data'' \<mapsto> frame_table False D))"
    using run_succeeds_only_after_upload by blast
  from assms(5) obtain D' where
    D': "csv w2 ''data/loan.csv'' = Inr D'"
    and two: "tables (snd (run w2 env2 (tables (snd (run w1 env1 s)))))
                = out_of_band w2 ((tables (snd (run w1 env1 s)))(''loan_data'' \<mapsto> frame_table False D'))"
    using run_succeeds_only_after_upload by blast
  from D D' assms(1) have "D' = D" by simp
  with one two assms(2,3) show ?thesis by simp
qed

theorem rerun_same_table_witness:
  "tables (snd (run (quiet_world loan_frame) Map.empty
             (tables (snd (run (quiet_world loan_frame) Map.empty [''loan_data'' \<mapsto> old_table])))))
     = tables (snd (run (quiet_world loan_frame) Map.empty [''loan_data'' \<mapsto> old_table]))"
proof -
  have ok: "fst (run (quiet_world loan_frame) Map.empty s) = Inr ()" for s
    by (simp add: run_quiet [OF quiet_configured quiet_csv quiet_store_ok quiet_undisturbed])
  show ?thesis
    by (rule rerun_same_table [OF refl quiet_undisturbed quiet_undisturbed ok ok])
qed

subsection \<open>C9: the missing connection string\<close>

text \<open>
  Claim C9. When the environment holds no \<open>database_url\<close> after the env file has
  been loaded, the run fails with \<open>KeyError\<close> for that key; the only thing it has
  done is to load the env file: no engine was created, no CSV file read, no connection
  attempted, the store is untouched and nothing was printed.
\<close>

theorem missing_key:
  assumes "dotenv_environ w ''dburl.env'' env ''database_url'' = None"
  shows "fst (run w env s) = Inl (KeyError ''database_url'')
    \<and> trace (snd (run w env s)) = [EnvLoaded ''dburl.env'']
    \<and> tables (snd (run w env s)) = s
    \<and> stdout (snd (run w env s)) = []"
  using assms by (simp add: run_no_key)

text \<open>
  An env file that sets another variable only.
\<close>

theorem missing_key_witness:
  "fst (run ((quiet_world loan_frame)\<lparr>env_file := \<lambda>p. [(''other'', ''x'')]\<rparr>) Map.empty Map.empty)
     = Inl (KeyError ''database_url'')
   \<and> trace (snd (run ((quiet_world loan_frame)\<lparr>env_file := \<lambda>p. [(''other'', ''x'')]\<rparr>) Map.empty Map.empty))
     = [EnvLoaded ''dburl.env'']
   \<and> tables (snd (run ((quiet_world loan_frame)\<lparr>env_file := \<lambda>p. [(''other'', ''x'')]\<rparr>) Map.empty Map.empty))
     = Map.empty
   \<and> stdout (snd (run ((quiet_world loan_frame)\<lparr>env_file := \<lambda>p. [(''other'', ''x'')]\<rparr>) Map.empty Map.empty))
     = []"
proof -
  have "dotenv_environ ((quiet_world loan_frame)\<lparr>env_file := \<lambda>p. [(''other'', ''x'')]\<rparr>)
          ''dburl.env'' Map.empty ''database_url'' = None"
    by (simp add: dotenv_environ_def quiet_world_def)
  then show ?thesis by (rule missing_key)
qed

subsection \<open>C10: no index column\<close>

text \<open>
  Claim C10. A successful \<open>to_sql\<close> with \<open>index=False\<close>, whatever the mode, leaves a
  table whose columns are exactly the columns of the data frame; so does a run of the
  script for the frame read from the CSV file, when nobody else touches the store.
  (With \<open>index=True\<close> there would be a column \<open>index\<close> in front:
  lemma \<open>to_sql_index_column\<close>.)
\<close>

theorem no_index_column:
  "(to_sql w df name eng mode False st = (Inr (), st') \<longrightarrow>
      (\<exists>t. tables st' name = Some t \<and> tcolumns t = columns df))
   \<and> (configured w env url \<and> csv w ''data/loan.csv'' = Inr D \<and> upload_ok w \<and> out_of_band w = id \<longrightarrow>
        (\<exists>t. tables (snd (run w env s)) ''loan_data'' = Some t \<and> tcolumns t = columns D))"
proof -
  have "\<exists>t. tables st' name = Some t \<and> tcolumns t = columns df"
    if "to_sql w df name eng mode False st = (Inr (), st')"
    using to_sql_written [OF that] by (auto dest!: write_frame_columns simp add: frame_table_def)
  moreover have "\<exists>t. tables (snd (run w env s)) ''loan_data'' = Some t \<and> tcolumns t = columns D"
    if "configured w env url" "csv w ''data/loan.csv'' = Inr D" "upload_ok w" "out_of_band w = id"
    using that by (simp add: run_uploaded_tables frame_table_def)
  ultimately show ?thesis by blast
qed

theorem no_index_column_witness:
  "(\<exists>t. tables (snd (to_sql (quiet_world loan_frame) loan_frame ''loan_data'' (Engine ''u'') Replace False
            (start Map.empty Map.empty))) ''loan_data'' = Some t
        \<and> tcolumns t = [''id'', ''amount''])
   \<and> (\<exists>t. tables (snd (run (quiet_world loan_frame) Map.empty Map.empty)) ''loan_data'' = Some t
        \<and> tcolumns t = [''id'', ''amount''])"
proof -
  let ?st = "start Map.empty Map.empty"
  let ?st1 = "snd (to_sql (quiet_world loan_frame) loan_frame ''loan_data'' (Engine ''u'') Replace False ?st)"
  have a: "to_sql (quiet_world loan_frame) loan_frame ''loan_data'' (Engine ''u'') Replace False ?st = (Inr (), ?st1)"
    by (simp add: to_sql_Replace_ok quiet_upload_ok)
  show ?thesis
    using no_index_column [where w = "quiet_world loan_frame" and df = loan_frame
        and name = "''loan_data''" and eng = "Engine ''u''" and mode = Replace and st = ?st
        and st' = ?st1 and env = Map.empty and url = "''postgresql://neon/loans''"
        and D = loan_frame and s = Map.empty]
      a quiet_configured [of loan_frame] quiet_csv [of loan_frame] quiet_upload_ok [of loan_frame]
      quiet_undisturbed [of loan_frame]
    by (simp add: loan_frame_def)
qed

end
